theory Spec2Isabelle
  imports Complex_Main "HOL-Library.Multiset"
begin

section \<open>The data model of the notebook\<close>

text \<open>
  The notebook \<^verbatim>\<open>datatypes.ipynb\<close> builds one pandas DataFrame from a literal dict of
  lists and then only calls pandas on it: \<^verbatim>\<open>dtypes\<close>, \<^verbatim>\<open>describe\<close>, \<^verbatim>\<open>select_dtypes\<close>,
  \<^verbatim>\<open>min\<close>, \<^verbatim>\<open>max\<close>, \<^verbatim>\<open>mean\<close>, \<^verbatim>\<open>median\<close>, \<^verbatim>\<open>value_counts\<close> and \<^verbatim>\<open>nunique\<close>. The embedding
  models a DataFrame as the ordered list of its named columns, each column carrying its
  dtype and its cells, and models every pandas call the cells make by a function on that
  list.

  The dtypes are the fixed-width integer and float dtypes of numpy, bool and object.
  Datetime, categorical and extension dtypes are not part of the model.
\<close>

datatype int_dtype = Int8 | Int16 | Int32 | Int64 | UInt8 | UInt16 | UInt32 | UInt64

datatype float_dtype = Float16 | Float32 | Float64

datatype dtype = DInt int_dtype | DFloat float_dtype | DBool | DObject

abbreviation int64 :: dtype where "int64 \<equiv> DInt Int64"
abbreviation int32 :: dtype where "int32 \<equiv> DInt Int32"
abbreviation float64 :: dtype where "float64 \<equiv> DFloat Float64"
abbreviation float32 :: dtype where "float32 \<equiv> DFloat Float32"
abbreviation object :: dtype where "object \<equiv> DObject"

text \<open>
  A float cell is either NaN or a number. Numbers are the exact reals the literals denote:
  the rounding of binary floating point is not modelled, and results are compared with the
  notebook's output at the decimals it prints.
\<close>

datatype num = NaN | Num real

text \<open>
  A column (a pandas Series without its name). An object column holds text, as every
  object column of the notebook does.
\<close>

datatype series =
    IntSeries int_dtype "int list"
  | FloatSeries float_dtype "num list"
  | BoolSeries "bool list"
  | ObjectSeries "string list"

fun dtype_of :: "series \<Rightarrow> dtype" where
  "dtype_of (IntSeries t _) = DInt t"
| "dtype_of (FloatSeries t _) = DFloat t"
| "dtype_of (BoolSeries _) = DBool"
| "dtype_of (ObjectSeries _) = DObject"

fun len :: "series \<Rightarrow> nat" where
  "len (IntSeries _ xs) = length xs"
| "len (FloatSeries _ xs) = length xs"
| "len (BoolSeries xs) = length xs"
| "len (ObjectSeries xs) = length xs"

text \<open>
  A DataFrame: the columns in insertion order. A frame built from a dict has distinct
  column names, and all its columns have the same number of rows.
\<close>

type_synonym frame = "(string \<times> series) list"

definition columns :: "frame \<Rightarrow> string list" where
  "columns df = map fst df"

definition rectangular :: "frame \<Rightarrow> bool" where
  "rectangular df = (case df of [] \<Rightarrow> True | (_, s) # rest \<Rightarrow> list_all (\<lambda>(_, t). len t = len s) rest)"

definition well_formed :: "frame \<Rightarrow> bool" where
  "well_formed df = (distinct (columns df) \<and> rectangular df)"

text \<open>\<^verbatim>\<open>df.shape\<close>: the number of rows and the number of columns.\<close>

definition shape :: "frame \<Rightarrow> nat \<times> nat" where
  "shape df = (case df of [] \<Rightarrow> (0, 0) | (_, s) # _ \<Rightarrow> (len s, length df))"

text \<open>The exceptions a cell of the notebook can end with.\<close>

datatype error = KeyError string | ValueError string | TypeError string

section \<open>Cell 1: the employee table\<close>

definition employee_data :: frame where
  "employee_data =
    [(''employee_id'', IntSeries Int64 [1001, 1002, 1003, 1004, 1005, 1006, 1007, 1008, 1009, 1010]),
     (''name'', ObjectSeries [''Alice Johnson'', ''Bob Smith'', ''Carol Davis'', ''David Wilson'',
        ''Eva Brown'', ''Frank Miller'', ''Grace Chen'', ''Henry Taylor'', ''Iris Garcia'',
        ''Jack Anderson'']),
     (''department'', ObjectSeries [''Engineering'', ''Marketing'', ''Engineering'', ''Sales'', ''HR'',
        ''Engineering'', ''Marketing'', ''Sales'', ''Finance'', ''Engineering'']),
     (''years_experience'', IntSeries Int64 [5, 8, 3, 12, 7, 2, 6, 15, 4, 9]),
     (''salary'', FloatSeries Float64 [Num 75000.50, Num 82000.75, Num 68000.00, Num 95000.25,
        Num 71000.80, Num 62000.00, Num 78000.30, Num 105000.00, Num 73000.60, Num 87000.90]),
     (''education_level'', ObjectSeries [''Bachelor'', ''Master'', ''Bachelor'', ''Master'',
        ''Bachelor'', ''Bachelor'', ''PhD'', ''Master'', ''Bachelor'', ''Master'']),
     (''performance_rating'', ObjectSeries [''Good'', ''Excellent'', ''Average'', ''Excellent'',
        ''Good'', ''Average'', ''Excellent'', ''Excellent'', ''Good'', ''Good''])]"

section \<open>Cell 3: columns by dtype\<close>

text \<open>
  \<^verbatim>\<open>df.select_dtypes(include=[...])\<close> with no \<^verbatim>\<open>exclude\<close>: pandas raises ValueError when both
  lists are empty, and otherwise keeps, in order, the columns whose dtype is one of the
  listed ones. A dtype name such as \<^verbatim>\<open>'int64'\<close> selects that dtype only.
\<close>

definition select_dtypes :: "dtype list \<Rightarrow> frame \<Rightarrow> error + frame" where
  "select_dtypes include df =
     (if include = [] then Inl (ValueError ''at least one of include or exclude must be nonempty'')
      else Inr (filter (\<lambda>(n, s). dtype_of s \<in> set include) df))"

record buckets =
  discrete :: "string list"
  continuous :: "string list"
  categorical :: "string list"

text \<open>
  The three selections of the cell, in its order; an exception of an earlier call would
  end the cell before the later ones.
\<close>

definition classify :: "frame \<Rightarrow> error + buckets" where
  "classify df =
     (case select_dtypes [int64, int32] df of
        Inl e \<Rightarrow> Inl e
      | Inr d \<Rightarrow>
          (case select_dtypes [float64, float32] df of
             Inl e \<Rightarrow> Inl e
           | Inr c \<Rightarrow>
               (case select_dtypes [object] df of
                  Inl e \<Rightarrow> Inl e
                | Inr k \<Rightarrow>
                    Inr \<lparr>discrete = columns d, continuous = columns c, categorical = columns k\<rparr>)))"

text \<open>The dtypes that the three include lists of the cell name between them.\<close>

definition supported :: "dtype \<Rightarrow> bool" where
  "supported t = (t \<in> {int64, int32, float64, float32, object})"

section \<open>Cells 4 and 5: reductions of a numeric column\<close>

text \<open>
  \<^verbatim>\<open>Series.min\<close>, \<^verbatim>\<open>max\<close>, \<^verbatim>\<open>mean\<close> and \<^verbatim>\<open>median\<close> are called with their defaults, so they
  skip NaN cells (\<^verbatim>\<open>skipna=True\<close>) and return NaN, not an exception, when no cell is left.
\<close>

fun dropna :: "num list \<Rightarrow> real list" where
  "dropna [] = []"
| "dropna (NaN # vs) = dropna vs"
| "dropna (Num x # vs) = x # dropna vs"

definition nanmin :: "num list \<Rightarrow> num" where
  "nanmin vs = (case dropna vs of [] \<Rightarrow> NaN | x # xs \<Rightarrow> Num (fold min xs x))"

definition nanmax :: "num list \<Rightarrow> num" where
  "nanmax vs = (case dropna vs of [] \<Rightarrow> NaN | x # xs \<Rightarrow> Num (fold max xs x))"

definition nanmean :: "num list \<Rightarrow> num" where
  "nanmean vs =
     (let xs = dropna vs; n = length xs
      in if n = 0 then NaN else Num (sum_list xs / real n))"

text \<open>The median of an even number of cells is the mean of the two middle ones.\<close>

definition nanmedian :: "num list \<Rightarrow> num" where
  "nanmedian vs =
     (let ys = sort (dropna vs); n = length ys
      in if n = 0 then NaN
         else if odd n then Num (ys ! (n div 2))
         else Num ((ys ! (n div 2 - 1) + ys ! (n div 2)) / 2))"

text \<open>
  The cells of a column as the floats that \<^verbatim>\<open>mean\<close> and \<^verbatim>\<open>median\<close> work on: an integer is
  converted, a bool counts as 1 or 0 (so the minimum and maximum of a bool column, which
  pandas gives as a bool, are 0 or 1 here). Text is not converted: \<^verbatim>\<open>mean\<close> and \<^verbatim>\<open>median\<close>
  raise TypeError on a text column, unless it has no row.
\<close>

fun numeric_cells :: "series \<Rightarrow> error + num list" where
  "numeric_cells (IntSeries _ xs) = Inr (map (\<lambda>i. Num (real_of_int i)) xs)"
| "numeric_cells (FloatSeries _ vs) = Inr vs"
| "numeric_cells (BoolSeries bs) = Inr (map (\<lambda>b. Num (of_bool b)) bs)"
| "numeric_cells (ObjectSeries []) = Inr []"
| "numeric_cells (ObjectSeries (x # xs)) = Inl (TypeError ''Could not convert string to numeric'')"

record numeric_summary =
  minimum :: num
  maximum :: num
  mean :: num
  median :: num

text \<open>The four reductions of cell 5 on one column.\<close>

definition summarizeNumeric :: "series \<Rightarrow> error + numeric_summary" where
  "summarizeNumeric col =
     (case numeric_cells col of
        Inl e \<Rightarrow> Inl e
      | Inr vs \<Rightarrow>
          Inr \<lparr>minimum = nanmin vs, maximum = nanmax vs, mean = nanmean vs, median = nanmedian vs\<rparr>)"

text \<open>Float subtraction, for the salary range: NaN on either side gives NaN.\<close>

fun num_sub :: "num \<Rightarrow> num \<Rightarrow> num" where
  "num_sub (Num a) (Num b) = Num (a - b)"
| "num_sub _ _ = NaN"

text \<open>
  Cell 5 on its column: it formats each reduction with \<^verbatim>\<open>:,.2f\<close> and then subtracts the
  minimum from the maximum. The minimum of a text column with a row is a string, which
  the float format rejects (ValueError) before anything else is computed; the minimum and
  maximum of a bool column with a row are numpy bools, which cannot be subtracted
  (TypeError).
\<close>

fun salary_statistics :: "series \<Rightarrow> error + numeric_summary \<times> num" where
  "salary_statistics (ObjectSeries (x # xs)) = Inl (ValueError ''Unknown format code f for str'')"
| "salary_statistics (BoolSeries (b # bs)) = Inl (TypeError ''numpy boolean subtract is not supported'')"
| "salary_statistics col =
     (case summarizeNumeric col of
        Inl e \<Rightarrow> Inl e
      | Inr r \<Rightarrow> Inr (r, num_sub (maximum r) (minimum r)))"

text \<open>\<^verbatim>\<open>df[name]\<close> raises KeyError when the frame has no such column.\<close>

definition getitem :: "frame \<Rightarrow> string \<Rightarrow> error + series" where
  "getitem df name = (case map_of df name of None \<Rightarrow> Inl (KeyError name) | Some col \<Rightarrow> Inr col)"

section \<open>Cells 6 and 7: frequencies of a column\<close>

text \<open>
  \<^verbatim>\<open>value_counts\<close> first counts the values in a table that keeps them in the order of their
  first appearance, then sorts the table by descending count (\<^verbatim>\<open>sort_values\<close> with
  \<^verbatim>\<open>ascending=False\<close>).
\<close>

fun bump :: "'a \<Rightarrow> ('a \<times> nat) list \<Rightarrow> ('a \<times> nat) list" where
  "bump x [] = [(x, 1)]"
| "bump x ((k, c) # kcs) = (if k = x then (k, Suc c) # kcs else (k, c) # bump x kcs)"

definition tally :: "'a list \<Rightarrow> ('a \<times> nat) list" where
  "tally xs = fold bump xs []"

text \<open>
  The sort is \<^verbatim>\<open>Series.sort_values(ascending=False)\<close>, which hands the counts to numpy's
  \<^verbatim>\<open>argsort\<close> with the default kind. numpy is not in the notebook, and all that its
  \<^verbatim>\<open>argsort\<close> promises is positions in ascending order of value: the order it leaves among
  equal values is not fixed (it varies with the numpy build). So \<^verbatim>\<open>argsort\<close> is a parameter
  of everything that sorts, and \<open>is_argsort\<close> says what is known of it.
\<close>

type_synonym argsort = "int list \<Rightarrow> nat list"

definition is_argsort :: "argsort \<Rightarrow> bool" where
  "is_argsort argsort =
     (\<forall>xs. mset (argsort xs) = mset [0..<length xs] \<and> sorted (map (\<lambda>i. xs ! i) (argsort xs)))"

text \<open>
  pandas' \<^verbatim>\<open>nargsort\<close>, on values without NaN: for a descending sort it reverses the values
  and their positions, sorts ascending, and reverses the result. The positions that
  \<^verbatim>\<open>argsort\<close> returns are in range (\<open>is_argsort\<close>).
\<close>

definition nargsort :: "argsort \<Rightarrow> bool \<Rightarrow> int list \<Rightarrow> nat list" where
  "nargsort argsort ascending items =
     (let idx = [0..<length items];
          non_nans = (if ascending then items else rev items);
          non_nan_idx = (if ascending then idx else rev idx);
          indexer = map (\<lambda>p. non_nan_idx ! p) (argsort non_nans)
      in if ascending then indexer else rev indexer)"

definition sort_values :: "argsort \<Rightarrow> ('a \<times> nat) list \<Rightarrow> ('a \<times> nat) list" where
  "sort_values argsort kcs =
     map (\<lambda>i. kcs ! i) (nargsort argsort False (map (\<lambda>(k, c). int c) kcs))"

definition value_counts :: "argsort \<Rightarrow> 'a list \<Rightarrow> ('a \<times> nat) list" where
  "value_counts argsort xs = sort_values argsort (tally xs)"

text \<open>
  Two sorting argsorts, as instances of the parameter. The first keeps equal values in
  the order of their positions (numpy's \<^verbatim>\<open>kind='stable'\<close>). The second leaves an ascending
  array as it is, as the recorded outputs of cells 6 and 7 show of numpy's, and otherwise
  returns equal values in the reverse order of their positions.
\<close>

definition stable_argsort :: argsort where
  "stable_argsort xs = sort_key (\<lambda>i. xs ! i) [0..<length xs]"

definition reversing_argsort :: argsort where
  "reversing_argsort xs =
     (if sorted xs then [0..<length xs] else rev (sort_key (\<lambda>i. - (xs ! i)) [0..<length xs]))"

text \<open>
  \<^verbatim>\<open>nunique\<close> is the length of \<^verbatim>\<open>unique\<close>, which lists the values in the order of their first
  appearance.
\<close>

definition unique :: "'a list \<Rightarrow> 'a list" where
  "unique xs = fold (\<lambda>x seen. if x \<in> set seen then seen else seen @ [x]) xs []"

definition nunique :: "'a list \<Rightarrow> nat" where
  "nunique xs = length (unique xs)"

text \<open>
  The cells of any column as values, without the NaN cells: both calls drop them
  (\<^verbatim>\<open>dropna=True\<close>).
\<close>

datatype scalar = IntVal int | FloatVal real | BoolVal bool | StrVal string

fun cells :: "series \<Rightarrow> scalar list" where
  "cells (IntSeries _ xs) = map IntVal xs"
| "cells (FloatSeries _ vs) = map FloatVal (dropna vs)"
| "cells (BoolSeries bs) = map BoolVal bs"
| "cells (ObjectSeries ss) = map StrVal ss"

record categorical_summary =
  frequencies :: "(scalar \<times> nat) list"
  uniqueCount :: nat

definition summarizeCategorical :: "argsort \<Rightarrow> series \<Rightarrow> categorical_summary" where
  "summarizeCategorical argsort col =
     \<lparr>frequencies = value_counts argsort (cells col), uniqueCount = nunique (cells col)\<rparr>"

section \<open>Cell 2: dtypes and describe\<close>

definition dtypes :: "frame \<Rightarrow> (string \<times> dtype) list" where
  "dtypes df = map (\<lambda>(n, s). (n, dtype_of s)) df"

text \<open>
  The quartiles of \<^verbatim>\<open>describe\<close> interpolate linearly between the two sorted cells around
  position \<open>(n - 1) q\<close>.
\<close>

datatype quartile = Q25 | Q50 | Q75

fun fraction :: "quartile \<Rightarrow> real" where
  "fraction Q25 = 1 / 4"
| "fraction Q50 = 1 / 2"
| "fraction Q75 = 3 / 4"

definition quantile :: "quartile \<Rightarrow> num list \<Rightarrow> num" where
  "quantile q vs =
     (let ys = sort (dropna vs); n = length ys
      in if n = 0 then NaN
         else
           (let h = real (n - 1) * fraction q; lo = nat \<lfloor>h\<rfloor>; hi = nat \<lceil>h\<rceil>
            in Num (ys ! lo + (h - real lo) * (ys ! hi - ys ! lo))))"

text \<open>
  \<^verbatim>\<open>std\<close> with the default \<^verbatim>\<open>ddof=1\<close>: the squared deviations from the mean are divided by
  the number of cells less one, and fewer than two cells give NaN.
\<close>

definition nanstd :: "num list \<Rightarrow> num" where
  "nanstd vs =
     (let xs = dropna vs; n = length xs
      in if n \<le> 1 then NaN
         else
           (let m = sum_list xs / real n
            in Num (sqrt (sum_list (map (\<lambda>x. (x - m)\<^sup>2) xs) / real (n - 1)))))"

record numeric_description =
  d_count :: nat
  d_mean :: num
  d_std :: num
  d_min :: num
  d_q25 :: num
  d_q50 :: num
  d_q75 :: num
  d_max :: num

definition describe_numeric_1d :: "num list \<Rightarrow> numeric_description" where
  "describe_numeric_1d vs =
     \<lparr>d_count = length (dropna vs), d_mean = nanmean vs, d_std = nanstd vs, d_min = nanmin vs,
      d_q25 = quantile Q25 vs, d_q50 = quantile Q50 vs, d_q75 = quantile Q75 vs,
      d_max = nanmax vs\<rparr>"

record categorical_description =
  c_count :: nat
  c_unique :: nat
  c_top_freq :: "(scalar \<times> nat) option"

text \<open>
  The description of a non-numeric column: count, unique, and the most frequent value
  with its frequency (both NaN, here \<open>None\<close>, when the column has no value).
\<close>

definition describe_categorical_1d :: "argsort \<Rightarrow> scalar list \<Rightarrow> categorical_description" where
  "describe_categorical_1d argsort xs =
     (let objcounts = value_counts argsort xs
      in \<lparr>c_count = length xs, c_unique = length objcounts,
          c_top_freq = (case objcounts of [] \<Rightarrow> None | p # _ \<Rightarrow> Some p)\<rparr>)"

datatype description = Numeric numeric_description | Categorical categorical_description

fun describe_1d :: "argsort \<Rightarrow> series \<Rightarrow> description" where
  "describe_1d argsort (IntSeries t xs) =
     Numeric (describe_numeric_1d (map (\<lambda>i. Num (real_of_int i)) xs))"
| "describe_1d argsort (FloatSeries t vs) = Numeric (describe_numeric_1d vs)"
| "describe_1d argsort (BoolSeries bs) =
     Categorical (describe_categorical_1d argsort (map BoolVal bs))"
| "describe_1d argsort (ObjectSeries ss) =
     Categorical (describe_categorical_1d argsort (map StrVal ss))"

fun is_number :: "dtype \<Rightarrow> bool" where
  "is_number (DInt _) = True"
| "is_number (DFloat _) = True"
| "is_number DBool = False"
| "is_number DObject = False"

text \<open>
  \<^verbatim>\<open>df.describe()\<close> with its defaults: a frame without columns is rejected; the numeric
  columns are described when there is one, and all columns otherwise.
\<close>

definition describe :: "argsort \<Rightarrow> frame \<Rightarrow> error + (string \<times> description) list" where
  "describe argsort df =
     (if df = [] then Inl (ValueError ''Cannot describe a DataFrame without columns'')
      else
        (let data = filter (\<lambda>(n, s). is_number (dtype_of s)) df;
             data = (if data = [] then df else data)
         in Inr (map (\<lambda>(n, s). (n, describe_1d argsort s)) data)))"

definition describeTable ::
  "argsort \<Rightarrow> frame \<Rightarrow> error + (string \<times> dtype) list \<times> (string \<times> description) list" where
  "describeTable argsort df =
     (case describe argsort df of Inl e \<Rightarrow> Inl e | Inr d \<Rightarrow> Inr (dtypes df, d))"

section \<open>The notebook as a state machine\<close>

text \<open>
  The state of the kernel once cell 1 has run: the frame \<^verbatim>\<open>df\<close> and the variables that
  later cells assign (\<open>None\<close> before their cell has run). Running a cell gives what it
  computes for printing, or the exception that ends it, and the state it leaves. The
  cells that sort take numpy's \<^verbatim>\<open>argsort\<close> as their parameter.
\<close>

record notebook =
  df :: frame
  discrete_cols :: "string list option"
  continuous_cols :: "string list option"
  categorical_cols :: "string list option"
  dept_counts :: "(scalar \<times> nat) list option"

text \<open>Cell 1 builds the frame from the literal; no variable of a later cell is assigned yet.\<close>

definition cell_1 :: notebook where
  "cell_1 = \<lparr>df = employee_data, discrete_cols = None, continuous_cols = None,
     categorical_cols = None, dept_counts = None\<rparr>"

definition cell_2 ::
  "argsort \<Rightarrow> notebook
     \<Rightarrow> (error + (string \<times> dtype) list \<times> (string \<times> description) list) \<times> notebook" where
  "cell_2 argsort s = (describeTable argsort (df s), s)"

text \<open>Cell 3 assigns each list as soon as its selection has returned.\<close>

definition cell_3 :: "notebook \<Rightarrow> (error + buckets) \<times> notebook" where
  "cell_3 s =
     (case select_dtypes [int64, int32] (df s) of
        Inl e \<Rightarrow> (Inl e, s)
      | Inr d \<Rightarrow>
          (let s1 = s\<lparr>discrete_cols := Some (columns d)\<rparr>
           in case select_dtypes [float64, float32] (df s1) of
                Inl e \<Rightarrow> (Inl e, s1)
              | Inr c \<Rightarrow>
                  (let s2 = s1\<lparr>continuous_cols := Some (columns c)\<rparr>
                   in case select_dtypes [object] (df s2) of
                        Inl e \<Rightarrow> (Inl e, s2)
                      | Inr k \<Rightarrow>
                          (Inr \<lparr>discrete = columns d, continuous = columns c,
                                 categorical = columns k\<rparr>,
                           s2\<lparr>categorical_cols := Some (columns k)\<rparr>))))"

definition cell_4 :: "notebook \<Rightarrow> (error + num \<times> num \<times> num) \<times> notebook" where
  "cell_4 s =
     (case getitem (df s) ''years_experience'' of
        Inl e \<Rightarrow> (Inl e, s)
      | Inr col \<Rightarrow>
          (case numeric_cells col of
             Inl e \<Rightarrow> (Inl e, s)
           | Inr vs \<Rightarrow> (Inr (nanmin vs, nanmax vs, nanmean vs), s)))"

definition cell_5 :: "notebook \<Rightarrow> (error + numeric_summary \<times> num) \<times> notebook" where
  "cell_5 s =
     (case getitem (df s) ''salary'' of
        Inl e \<Rightarrow> (Inl e, s)
      | Inr col \<Rightarrow> (salary_statistics col, s))"

definition cell_6 :: "argsort \<Rightarrow> notebook \<Rightarrow> (error + categorical_summary) \<times> notebook" where
  "cell_6 argsort s =
     (case getitem (df s) ''department'' of
        Inl e \<Rightarrow> (Inl e, s)
      | Inr col \<Rightarrow>
          (let r = summarizeCategorical argsort col
           in (Inr r, s\<lparr>dept_counts := Some (frequencies r)\<rparr>)))"

definition cell_7 ::
  "argsort \<Rightarrow> notebook \<Rightarrow> (error + categorical_summary \<times> categorical_summary) \<times> notebook" where
  "cell_7 argsort s =
     (case getitem (df s) ''education_level'' of
        Inl e \<Rightarrow> (Inl e, s)
      | Inr edu \<Rightarrow>
          (case getitem (df s) ''performance_rating'' of
             Inl e \<Rightarrow> (Inl e, s)
           | Inr perf \<Rightarrow>
               (Inr (summarizeCategorical argsort edu, summarizeCategorical argsort perf), s)))"

section \<open>Classification\<close>

lemma classify_eq:
  "classify tbl =
     Inr \<lparr>discrete = columns (filter (\<lambda>(n, s). dtype_of s \<in> {int64, int32}) tbl),
          continuous = columns (filter (\<lambda>(n, s). dtype_of s \<in> {float64, float32}) tbl),
          categorical = columns (filter (\<lambda>(n, s). dtype_of s \<in> {object}) tbl)\<rparr>"
  by (simp add: classify_def select_dtypes_def)

lemma buckets_mset:
  "list_all (\<lambda>(n, s). supported (dtype_of s)) tbl \<Longrightarrow>
   mset (columns (filter (\<lambda>(n, s). dtype_of s \<in> {int64, int32}) tbl)
       @ columns (filter (\<lambda>(n, s). dtype_of s \<in> {float64, float32}) tbl)
       @ columns (filter (\<lambda>(n, s). dtype_of s \<in> {object}) tbl)) = mset (columns tbl)"
  by (induction tbl) (auto simp: columns_def supported_def)

lemma in_columns_filter:
  "distinct (columns tbl) \<Longrightarrow> (n, s) \<in> set tbl \<Longrightarrow>
   n \<in> set (columns (filter (\<lambda>(n, s). P s) tbl)) \<longleftrightarrow> P s"
  by (force simp: columns_def dest: eq_key_imp_eq_value)

lemma employee_data_distinct: "distinct (columns employee_data)"
  by (simp add: employee_data_def columns_def)

lemma employee_data_supported: "list_all (\<lambda>(n, s). supported (dtype_of s)) employee_data"
  by (simp add: employee_data_def supported_def)

text \<open>The table is well formed, and has the shape and the column list that cell 1 printed.\<close>

lemma employee_data_shape:
  "well_formed employee_data \<and> shape employee_data = (10, 7)
   \<and> columns employee_data = [''employee_id'', ''name'', ''department'', ''years_experience'',
        ''salary'', ''education_level'', ''performance_rating'']"
  by (simp add: well_formed_def rectangular_def shape_def columns_def employee_data_def)

text \<open>The dtypes are those that cell 2 printed.\<close>

lemma employee_data_dtypes:
  "dtypes employee_data = [(''employee_id'', int64), (''name'', object), (''department'', object),
     (''years_experience'', int64), (''salary'', float64), (''education_level'', object),
     (''performance_rating'', object)]"
  by (simp add: dtypes_def employee_data_def)

text \<open>What cell 3 computes is \<open>classify\<close> of the table.\<close>

lemma cell_3_classify: "fst (cell_3 s) = classify (df s)"
  by (simp add: cell_3_def classify_def select_dtypes_def Let_def)

text \<open>The model gives the three lists that cell 3 printed.\<close>

lemma classify_employee_data:
  "classify employee_data =
     Inr \<lparr>discrete = [''employee_id'', ''years_experience''], continuous = [''salary''],
          categorical = [''name'', ''department'', ''education_level'', ''performance_rating'']\<rparr>"
  by (simp add: classify_def select_dtypes_def columns_def employee_data_def)

text \<open>
  C1, as the code has it. For every frame with distinct column names whose columns all have
  one of the dtypes that cell 3 selects (int64 or int32, float64 or float32, object), the
  cell raises nothing and each column name is in exactly one of the three lists: together
  the lists hold every column name once and nothing else. Equal row counts are not needed.
\<close>

theorem classify_partition:
  assumes "distinct (columns tbl)" and "list_all (\<lambda>(n, s). supported (dtype_of s)) tbl"
  shows "\<exists>b. classify tbl = Inr b
    \<and> mset (discrete b @ continuous b @ categorical b) = mset (columns tbl)
    \<and> distinct (discrete b @ continuous b @ categorical b)
    \<and> (\<forall>n \<in> set (columns tbl).
          of_bool (n \<in> set (discrete b)) + of_bool (n \<in> set (continuous b))
            + of_bool (n \<in> set (categorical b)) = (1::nat))"
proof -
  define b where "b =
     \<lparr>discrete = columns (filter (\<lambda>(n, s). dtype_of s \<in> {int64, int32}) tbl),
      continuous = columns (filter (\<lambda>(n, s). dtype_of s \<in> {float64, float32}) tbl),
      categorical = columns (filter (\<lambda>(n, s). dtype_of s \<in> {object}) tbl)\<rparr>"
  have b: "classify tbl = Inr b"
    unfolding b_def by (rule classify_eq)
  have d: "discrete b = columns (filter (\<lambda>(n, s). dtype_of s \<in> {int64, int32}) tbl)"
    and c: "continuous b = columns (filter (\<lambda>(n, s). dtype_of s \<in> {float64, float32}) tbl)"
    and k: "categorical b = columns (filter (\<lambda>(n, s). dtype_of s \<in> {object}) tbl)"
    by (simp_all add: b_def)
  have m: "mset (discrete b @ continuous b @ categorical b) = mset (columns tbl)"
    using buckets_mset [OF assms(2)] d c k by simp
  have dist: "distinct (discrete b @ continuous b @ categorical b)"
    using assms(1) m by (metis mset_eq_imp_distinct_iff)
  have "set (discrete b) \<union> set (continuous b) \<union> set (categorical b) = set (columns tbl)"
    using m by (metis mset_eq_setD set_append Un_assoc)
  with dist have "\<forall>n \<in> set (columns tbl).
      of_bool (n \<in> set (discrete b)) + of_bool (n \<in> set (continuous b))
        + of_bool (n \<in> set (categorical b)) = (1::nat)"
    by auto
  with b m dist show ?thesis by blast
qed

theorem classify_partition_witness:
  "distinct (columns employee_data)
   \<and> list_all (\<lambda>(n, s). supported (dtype_of s)) employee_data
   \<and> (\<exists>b. classify employee_data = Inr b
    \<and> mset (discrete b @ continuous b @ categorical b) = mset (columns employee_data)
    \<and> distinct (discrete b @ continuous b @ categorical b)
    \<and> (\<forall>n \<in> set (columns employee_data).
          of_bool (n \<in> set (discrete b)) + of_bool (n \<in> set (continuous b))
            + of_bool (n \<in> set (categorical b)) = (1::nat)))"
  using classify_partition [OF employee_data_distinct employee_data_supported]
    employee_data_distinct employee_data_supported
  by blast

text \<open>
  C1 as stated fails: a well-formed frame whose one column holds 16-bit integers, and one
  with an unsigned 64-bit column beside an int64 column, are frames of integer columns,
  yet the int16 and the uint64 column are in none of the three lists.
\<close>

theorem classify_misses_other_integer_widths:
  "well_formed [(''age'', IntSeries Int16 [30, 41])]
   \<and> classify [(''age'', IntSeries Int16 [30, 41])]
       = Inr \<lparr>discrete = [], continuous = [], categorical = []\<rparr>
   \<and> well_formed [(''employee_id'', IntSeries Int64 [1001, 1002]),
                    (''badge'', IntSeries UInt64 [9223372036854775808, 7])]
   \<and> classify [(''employee_id'', IntSeries Int64 [1001, 1002]),
                 (''badge'', IntSeries UInt64 [9223372036854775808, 7])]
       = Inr \<lparr>discrete = [''employee_id''], continuous = [], categorical = []\<rparr>"
  by (simp add: well_formed_def rectangular_def classify_def select_dtypes_def columns_def)

text \<open>
  C4, as the code has it. The cell has no failure mode at all: for every frame, also one
  with a column of a dtype that none of the three lists names, it returns the three lists
  and raises nothing.
\<close>

theorem classify_never_fails: "\<exists>b. classify tbl = Inr b"
  by (simp add: classify_eq)

text \<open>
  C4 as stated fails: a frame with one bool column is not rejected, the cell returns three
  empty lists.
\<close>

theorem classify_bool_not_rejected:
  "classify [(''remote'', BoolSeries [True, False])]
     = Inr \<lparr>discrete = [], continuous = [], categorical = []\<rparr>"
  by (simp add: classify_def select_dtypes_def columns_def)

text \<open>
  C10. In a frame with distinct column names, a column whose dtype is none of int64, int32,
  float64, float32 and object (a bool column, say) raises no error in cell 3, and its name
  is in none of the three lists.
\<close>

theorem classify_omits_unsupported:
  assumes "distinct (columns tbl)" and "(n, s) \<in> set tbl" and "\<not> supported (dtype_of s)"
  shows "\<exists>b. classify tbl = Inr b \<and> n \<notin> set (discrete b) \<and> n \<notin> set (continuous b)
     \<and> n \<notin> set (categorical b)"
  using assms in_columns_filter [OF assms(1,2)]
  by (simp add: classify_eq supported_def)

theorem classify_omits_unsupported_witness:
  "distinct (columns [(''employee_id'', IntSeries Int64 [1001, 1002]),
                      (''remote'', BoolSeries [True, False])])
   \<and> \<not> supported (dtype_of (BoolSeries [True, False]))
   \<and> (\<exists>b. classify [(''employee_id'', IntSeries Int64 [1001, 1002]),
                      (''remote'', BoolSeries [True, False])] = Inr b
     \<and> ''remote'' \<notin> set (discrete b) \<and> ''remote'' \<notin> set (continuous b)
     \<and> ''remote'' \<notin> set (categorical b) \<and> discrete b = [''employee_id''])"
proof -
  let ?df = "[(''employee_id'', IntSeries Int64 [1001, 1002]), (''remote'', BoolSeries [True, False])]"
  have h1: "distinct (columns ?df)" by (simp add: columns_def)
  have h2: "(''remote'', BoolSeries [True, False]) \<in> set ?df" by simp
  have h3: "\<not> supported (dtype_of (BoolSeries [True, False]))" by (simp add: supported_def)
  have "discrete b = [''employee_id'']" if "classify ?df = Inr b" for b
    using that by (auto simp: classify_eq columns_def)
  with classify_omits_unsupported [OF h1 h2 h3] h1 h3 show ?thesis by blast
qed

section \<open>Numeric summaries\<close>

text \<open>
  C2. On the ten salaries, listed as the claim lists them, the four reductions give
  62000.00, 105000.00, 79600.41 and 76500.40; and cell 5, run on the table of cell 1 (the
  same salaries in row order), gives these four values and the range 43000.00, as printed.
\<close>

theorem summarizeNumeric_salary:
  "summarizeNumeric (FloatSeries Float64 [Num 62000.00, Num 68000.00, Num 71000.80, Num 73000.60,
      Num 75000.50, Num 78000.30, Num 82000.75, Num 87000.90, Num 95000.25, Num 105000.00])
     = Inr \<lparr>minimum = Num 62000.00, maximum = Num 105000.00, mean = Num 79600.41,
            median = Num 76500.40\<rparr>
   \<and> fst (cell_5 cell_1)
     = Inr (\<lparr>minimum = Num 62000.00, maximum = Num 105000.00, mean = Num 79600.41,
             median = Num 76500.40\<rparr>, Num 43000.00)"
  by (simp add: cell_5_def cell_1_def getitem_def employee_data_def summarizeNumeric_def
      nanmin_def nanmax_def nanmean_def nanmedian_def Let_def)

text \<open>Cell 4 on the table of cell 1: range 2 to 15, average 7.1, as printed.\<close>

lemma cell_4_output: "fst (cell_4 cell_1) = Inr (Num 2, Num 15, Num 7.1)"
  by (simp add: cell_4_def cell_1_def getitem_def employee_data_def nanmin_def nanmax_def
      nanmean_def Let_def)

text \<open>
  C3, as the code has it. On a numeric column with zero rows, of any integer or float
  dtype, the four reductions raise nothing and each of them is NaN; and cell 5, on a table
  whose one column \<^verbatim>\<open>salary\<close> is such a column, raises nothing and gives NaN for the four
  reductions and for the range.
\<close>

theorem summarizeNumeric_empty:
  "summarizeNumeric (IntSeries t [])
     = Inr \<lparr>minimum = NaN, maximum = NaN, mean = NaN, median = NaN\<rparr>
   \<and> summarizeNumeric (FloatSeries t' [])
     = Inr \<lparr>minimum = NaN, maximum = NaN, mean = NaN, median = NaN\<rparr>
   \<and> fst (cell_5 (s\<lparr>df := [(''salary'', IntSeries t [])]\<rparr>))
     = Inr (\<lparr>minimum = NaN, maximum = NaN, mean = NaN, median = NaN\<rparr>, NaN)
   \<and> fst (cell_5 (s\<lparr>df := [(''salary'', FloatSeries t' [])]\<rparr>))
     = Inr (\<lparr>minimum = NaN, maximum = NaN, mean = NaN, median = NaN\<rparr>, NaN)"
  by (simp add: cell_5_def getitem_def summarizeNumeric_def nanmin_def nanmax_def nanmean_def
      nanmedian_def Let_def)

text \<open>
  C3 as stated fails: a float64 column with zero rows is summarised without any error, and
  cell 5 on a table whose one column \<^verbatim>\<open>salary\<close> has zero rows returns NaN five times.
\<close>

theorem summarizeNumeric_empty_no_error:
  "summarizeNumeric (FloatSeries Float64 [])
     = Inr \<lparr>minimum = NaN, maximum = NaN, mean = NaN, median = NaN\<rparr>
   \<and> fst (cell_5 \<lparr>df = [(''salary'', FloatSeries Float64 [])], discrete_cols = None,
            continuous_cols = None, categorical_cols = None, dept_counts = None\<rparr>)
     = Inr (\<lparr>minimum = NaN, maximum = NaN, mean = NaN, median = NaN\<rparr>, NaN)"
  by (simp add: cell_5_def getitem_def summarizeNumeric_def nanmin_def nanmax_def nanmean_def
      nanmedian_def Let_def)

section \<open>Frequencies\<close>

lemma unique_snoc:
  "unique (xs @ [x]) = (if x \<in> set (unique xs) then unique xs else unique xs @ [x])"
  by (simp add: unique_def)

lemma unique_Nil: "unique [] = []"
  by (simp add: unique_def)

lemma set_unique: "set (unique xs) = set xs"
  by (induction xs rule: rev_induct) (auto simp: unique_snoc unique_Nil)

lemma distinct_unique: "distinct (unique xs)"
  by (induction xs rule: rev_induct) (auto simp: unique_snoc unique_Nil)

lemma fold_unique_acc:
  "distinct acc \<Longrightarrow>
   fold (\<lambda>x seen. if x \<in> set seen then seen else seen @ [x]) xs acc
     = acc @ filter (\<lambda>y. y \<notin> set acc) (unique xs)"
proof (induction xs rule: rev_induct)
  case Nil
  then show ?case by (simp add: unique_def)
next
  case (snoc x xs)
  then show ?case by (auto simp: unique_def)
qed

text \<open>
  \<open>unique\<close> is the order of first appearance: the first cell, then the values of the rest
  in the order of their first appearance, the first cell's value left out.
\<close>

lemma unique_Cons: "unique (x # xs) = x # filter (\<lambda>y. y \<noteq> x) (unique xs)"
  using fold_unique_acc [of "[x]" xs] by (simp add: unique_def)

lemma tally_snoc: "tally (xs @ [x]) = bump x (tally xs)"
  by (simp add: tally_def)

lemma bump_map:
  "distinct ks \<Longrightarrow>
   bump x (map (\<lambda>k. (k, g k)) ks) =
     (if x \<in> set ks then map (\<lambda>k. (k, if k = x then Suc (g k) else g k)) ks
      else map (\<lambda>k. (k, g k)) ks @ [(x, 1)])"
  by (induction ks) auto

text \<open>The table of counts: each value once, in the order of first appearance, with its count.\<close>

lemma tally_eq: "tally xs = map (\<lambda>k. (k, count_list xs k)) (unique xs)"
proof (induction xs rule: rev_induct)
  case Nil
  show ?case by (simp add: tally_def unique_def)
next
  case (snoc x xs)
  show ?case
  proof (cases "x \<in> set xs")
    case True
    then show ?thesis
      using snoc bump_map [OF distinct_unique, of x "count_list xs" xs]
      by (simp add: tally_snoc unique_snoc set_unique)
  next
    case False
    then show ?thesis
      using snoc bump_map [OF distinct_unique, of x "count_list xs" xs]
      by (auto simp: tally_snoc unique_snoc set_unique)
  qed
qed

text \<open>What \<open>is_argsort\<close> gives: the sorted table is the table of counts, rearranged into
  descending order of count.\<close>

lemma argsort_in_range:
  assumes "is_argsort argsort" and "p \<in> set (argsort xs)"
  shows "p < length xs"
proof -
  have "mset (argsort xs) = mset [0..<length xs]"
    using assms(1) by (simp add: is_argsort_def)
  then have "set (argsort xs) = set [0..<length xs]"
    by (rule mset_eq_setD)
  with assms(2) show ?thesis by simp
qed

lemma mset_map_nth:
  assumes "mset ix = mset [0..<length t]"
  shows "mset (map (\<lambda>i. t ! i) ix) = mset t"
proof -
  have "mset (map (\<lambda>i. t ! i) ix) = image_mset (\<lambda>i. t ! i) (mset [0..<length t])"
    using assms by simp
  also have "\<dots> = mset (map (\<lambda>i. t ! i) [0..<length t])"
    by simp
  also have "\<dots> = mset t"
    by (simp add: map_nth)
  finally show ?thesis .
qed

lemma nargsort_perm:
  assumes "is_argsort argsort"
  shows "mset (nargsort argsort False items) = mset [0..<length items]"
proof -
  have a: "mset (argsort (rev items)) = mset [0..<length (rev [0..<length items])]"
    using assms by (simp add: is_argsort_def)
  have "mset (map (\<lambda>p. rev [0..<length items] ! p) (argsort (rev items)))
      = mset (rev [0..<length items])"
    using a by (rule mset_map_nth)
  then show ?thesis
    by (simp add: nargsort_def Let_def)
qed

lemma nargsort_sorted:
  assumes "is_argsort argsort"
  shows "sorted (rev (map (\<lambda>i. items ! i) (nargsort argsort False items)))"
proof -
  let ?n = "length items"
  let ?p = "argsort (rev items)"
  have s: "sorted (map (\<lambda>q. rev items ! q) ?p)"
    using assms by (simp add: is_argsort_def)
  have e: "items ! (rev [0..<?n] ! q) = rev items ! q" if "q \<in> set ?p" for q
  proof -
    have q: "q < ?n" using argsort_in_range [OF assms that] by simp
    then show ?thesis by (simp add: rev_nth)
  qed
  have eq: "map (\<lambda>q. items ! (rev [0..<?n] ! q)) ?p = map (\<lambda>q. rev items ! q) ?p"
    by (rule map_cong [OF refl]) (rule e)
  have "rev (map (\<lambda>i. items ! i) (nargsort argsort False items))
      = map (\<lambda>q. items ! (rev [0..<?n] ! q)) ?p"
    by (simp add: nargsort_def Let_def rev_map comp_def)
  also note eq
  finally show ?thesis using s by (simp only:)
qed

lemma sort_values_mset:
  assumes "is_argsort argsort"
  shows "mset (sort_values argsort kcs) = mset kcs"
proof -
  have "mset (nargsort argsort False (map (\<lambda>(k, c). int c) kcs)) = mset [0..<length kcs]"
    using nargsort_perm [OF assms, of "map (\<lambda>(k, c). int c) kcs"] by simp
  then show ?thesis
    unfolding sort_values_def by (rule mset_map_nth)
qed

lemma sort_values_sorted:
  assumes "is_argsort argsort"
  shows "sorted_wrt (\<lambda>p q. snd q \<le> snd p) (sort_values argsort kcs)"
proof -
  let ?items = "map (\<lambda>(k, c). int c) kcs"
  let ?ix = "nargsort argsort False ?items"
  have r: "\<forall>i \<in> set ?ix. i < length kcs"
  proof -
    have "set ?ix = set [0..<length ?items]"
      using nargsort_perm [OF assms, of ?items] by (rule mset_eq_setD)
    then show ?thesis by simp
  qed
  have "sorted (rev (map (\<lambda>i. ?items ! i) ?ix))"
    by (rule nargsort_sorted [OF assms])
  moreover have "map (\<lambda>i. ?items ! i) ?ix = map (\<lambda>p. int (snd p)) (sort_values argsort kcs)"
    using r by (simp add: sort_values_def case_prod_beta)
  ultimately have "sorted (rev (map (\<lambda>p. int (snd p)) (sort_values argsort kcs)))"
    by simp
  then have "sorted_wrt (\<lambda>x y. y \<le> x) (map (\<lambda>p. int (snd p)) (sort_values argsort kcs))"
    by (simp add: sorted_wrt_rev)
  then show ?thesis
    by (simp add: sorted_wrt_map)
qed

lemma value_counts_mset:
  "is_argsort argsort \<Longrightarrow>
   mset (value_counts argsort xs) = mset (map (\<lambda>k. (k, count_list xs k)) (unique xs))"
  by (simp add: value_counts_def sort_values_mset tally_eq)

lemma value_counts_sorted:
  "is_argsort argsort \<Longrightarrow> sorted_wrt (\<lambda>p q. snd q \<le> snd p) (value_counts argsort xs)"
  by (simp add: value_counts_def sort_values_sorted)

lemma value_counts_keys:
  "is_argsort argsort \<Longrightarrow> mset (map fst (value_counts argsort xs)) = mset (unique xs)"
  using value_counts_mset [of argsort xs]
  by (metis (no_types, lifting) mset_map comp_def fst_conv map_idI map_map)

lemma value_counts_counts:
  assumes "is_argsort argsort"
  shows "map snd (value_counts argsort xs)
    = map (count_list xs) (map fst (value_counts argsort xs))"
proof -
  have "set (value_counts argsort xs) = set (map (\<lambda>k. (k, count_list xs k)) (unique xs))"
    using value_counts_mset [OF assms, of xs] by (rule mset_eq_setD)
  then have "\<forall>p \<in> set (value_counts argsort xs). snd p = count_list xs (fst p)"
    by auto
  then show ?thesis by simp
qed

lemma value_counts_length:
  "is_argsort argsort \<Longrightarrow> length (value_counts argsort xs) = nunique xs"
  using value_counts_mset [of argsort xs] mset_eq_length
  by (fastforce simp: nunique_def)

lemma is_argsort_stable: "is_argsort stable_argsort"
  by (simp add: is_argsort_def stable_argsort_def)

lemma is_argsort_reversing: "is_argsort reversing_argsort"
proof -
  have "sorted (map (\<lambda>i. xs ! i) (rev (sort_key (\<lambda>i. - (xs ! i)) l)))" for xs :: "int list" and l
  proof -
    have "sorted (map (\<lambda>i. - (xs ! i)) (sort_key (\<lambda>i. - (xs ! i)) l))"
      by (rule sorted_sort_key)
    then have "sorted_wrt (\<lambda>x y. xs ! y \<le> xs ! x) (sort_key (\<lambda>i. - (xs ! i)) l)"
      by (simp add: sorted_map)
    then show ?thesis
      by (simp add: sorted_map sorted_wrt_rev)
  qed
  moreover have "sorted (map (\<lambda>i. xs ! i) [0..<length xs])" if "sorted xs" for xs :: "int list"
    using that by (simp add: map_nth)
  ultimately show ?thesis
    by (simp add: is_argsort_def reversing_argsort_def)
qed

lemma reversing_argsort_recorded:
  "reversing_argsort [1, 1, 2, 2, 4] = [0, 1, 2, 3, 4] \<and> reversing_argsort [1, 4, 5] = [0, 1, 2]
   \<and> reversing_argsort [2, 4, 4] = [0, 1, 2]"
  by (simp add: reversing_argsort_def upt_rec)

lemma nunique_card: "nunique xs = card (set xs)"
  using distinct_card [OF distinct_unique, of xs] by (simp add: nunique_def set_unique)




text \<open>
  C6, as the code has it. Whatever sorting \<^verbatim>\<open>argsort\<close> numpy runs, for every column,
  categorical or not:
  \<^item> the pairs are sorted by descending count;
  \<^item> they hold each value of the column once, with the number of its cells;
  \<^item> the unique count is the number of pairs and of distinct values;
  \<^item> the sequence is empty exactly when the column has no cell, and a text column with zero
    rows gives the empty sequence and unique count 0;
  \<^item> nothing fails: the summary has no error result, and cell 6 can only end with the
    KeyError of a table without a department column.

  The order among values of equal count is the one \<^verbatim>\<open>argsort\<close> leaves, and nothing is said
  of it.
\<close>

theorem summarizeCategorical_order:
  assumes "is_argsort argsort"
  shows "sorted_wrt (\<lambda>p q. snd q \<le> snd p) (frequencies (summarizeCategorical argsort col))
   \<and> distinct (map fst (frequencies (summarizeCategorical argsort col)))
   \<and> set (map fst (frequencies (summarizeCategorical argsort col))) = set (cells col)
   \<and> map snd (frequencies (summarizeCategorical argsort col))
       = map (count_list (cells col)) (map fst (frequencies (summarizeCategorical argsort col)))
   \<and> uniqueCount (summarizeCategorical argsort col)
       = length (frequencies (summarizeCategorical argsort col))
   \<and> uniqueCount (summarizeCategorical argsort col) = card (set (cells col))
   \<and> (frequencies (summarizeCategorical argsort col) = []) = (cells col = [])
   \<and> summarizeCategorical argsort (ObjectSeries []) = \<lparr>frequencies = [], uniqueCount = 0\<rparr>
   \<and> fst (cell_6 argsort s)
       = (case getitem (df s) ''department'' of
            Inl e \<Rightarrow> Inl e
          | Inr dept \<Rightarrow> Inr (summarizeCategorical argsort dept))"
proof -
  let ?xs = "cells col"
  have f: "frequencies (summarizeCategorical argsort col) = value_counts argsort ?xs"
    and u: "uniqueCount (summarizeCategorical argsort col) = nunique ?xs"
    by (simp_all add: summarizeCategorical_def)
  have keys: "mset (map fst (value_counts argsort ?xs)) = mset (unique ?xs)"
    using assms by (rule value_counts_keys)
  have d: "distinct (map fst (value_counts argsort ?xs))"
    using keys distinct_unique [of ?xs] by (metis mset_eq_imp_distinct_iff)
  have st: "set (map fst (value_counts argsort ?xs)) = set ?xs"
    using keys set_unique [of ?xs] by (metis mset_eq_setD)
  have e: "(value_counts argsort ?xs = []) = (?xs = [])"
    using st by (metis list.map_disc_iff set_empty)
  have "length (value_counts argsort ([] :: scalar list)) = 0"
    using value_counts_length [OF assms, of "[]"] by (simp add: nunique_def unique_Nil)
  then have z: "summarizeCategorical argsort (ObjectSeries []) = \<lparr>frequencies = [], uniqueCount = 0\<rparr>"
    by (simp add: summarizeCategorical_def nunique_def unique_Nil)
  have c6: "fst (cell_6 argsort s)
       = (case getitem (df s) ''department'' of
            Inl e \<Rightarrow> Inl e
          | Inr dept \<Rightarrow> Inr (summarizeCategorical argsort dept))"
    by (simp add: cell_6_def Let_def split: sum.splits)
  show ?thesis
    unfolding f u
    using value_counts_sorted [OF assms, of ?xs] d st value_counts_counts [OF assms, of ?xs]
      value_counts_length [OF assms, of ?xs] nunique_card [of ?xs] e z c6
    by (simp only: simp_thms)
qed

theorem summarizeCategorical_order_witness:
  "is_argsort stable_argsort
   \<and> sorted_wrt (\<lambda>p q. snd q \<le> snd p)
        (frequencies (summarizeCategorical stable_argsort (ObjectSeries [''HR'', ''Sales'', ''Sales''])))
   \<and> set (map fst (frequencies (summarizeCategorical stable_argsort
        (ObjectSeries [''HR'', ''Sales'', ''Sales'']))))
       = {StrVal ''HR'', StrVal ''Sales''}
   \<and> uniqueCount (summarizeCategorical stable_argsort (ObjectSeries [''HR'', ''Sales'', ''Sales''])) = 2"
proof -
  let ?col = "ObjectSeries [''HR'', ''Sales'', ''Sales'']"
  note t = summarizeCategorical_order [OF is_argsort_stable, of ?col cell_1]
  have "card (set (cells ?col)) = 2" by simp
  with t is_argsort_stable show ?thesis by auto
qed

text \<open>
  The column a, b, c, d, c, d has the counts 1, 1, 2, 2 in order of first appearance. When
  \<^verbatim>\<open>argsort\<close> returns the equal values of the reversed counts 2, 2, 1, 1 in reverse order
  of position, the frequencies come out as d, c, b, a.
\<close>

lemma value_counts_abcdcd:
  assumes "argsort [2, 2, 1, 1] = [3, 2, 1, 0]"
  shows "frequencies (summarizeCategorical argsort
           (ObjectSeries [''a'', ''b'', ''c'', ''d'', ''c'', ''d'']))
     = [(StrVal ''d'', 2), (StrVal ''c'', 2), (StrVal ''b'', 1), (StrVal ''a'', 1)]"
  using assms
  by (simp add: summarizeCategorical_def value_counts_def sort_values_def nargsort_def tally_def
      Let_def)

lemma reversing_argsort_2211: "reversing_argsort [2, 2, 1, 1] = [3, 2, 1, 0]"
  by (simp add: reversing_argsort_def upt_rec)

text \<open>
  C6 as stated fails: with a sorting \<^verbatim>\<open>argsort\<close> that agrees with the recorded outputs of
  cells 6 and 7 and does not keep equal values in order, the column a, b, c, d, c, d, in
  which c appears before d and a before b, gives d before c and b before a.
\<close>

theorem summarizeCategorical_ties_not_first_seen:
  "is_argsort reversing_argsort
   \<and> reversing_argsort [1, 1, 2, 2, 4] = [0, 1, 2, 3, 4]
   \<and> reversing_argsort [1, 4, 5] = [0, 1, 2]
   \<and> reversing_argsort [2, 4, 4] = [0, 1, 2]
   \<and> unique (cells (ObjectSeries [''a'', ''b'', ''c'', ''d'', ''c'', ''d'']))
       = [StrVal ''a'', StrVal ''b'', StrVal ''c'', StrVal ''d'']
   \<and> frequencies (summarizeCategorical reversing_argsort
        (ObjectSeries [''a'', ''b'', ''c'', ''d'', ''c'', ''d'']))
       = [(StrVal ''d'', 2), (StrVal ''c'', 2), (StrVal ''b'', 1), (StrVal ''a'', 1)]"
  using is_argsort_reversing reversing_argsort_recorded
    value_counts_abcdcd [of reversing_argsort, OF reversing_argsort_2211]
  by (simp add: unique_def)

section \<open>The description of the table\<close>

text \<open>
  The model of \<^verbatim>\<open>describe\<close> gives the table that cell 2 printed: count, mean, minimum,
  quartiles and maximum as printed, and the standard deviations as square roots.
\<close>

lemma describe_employee_data:
  "describe argsort employee_data = Inr
     [(''employee_id'', Numeric \<lparr>d_count = 10, d_mean = Num 1005.5, d_std = Num (sqrt (55 / 6)),
         d_min = Num 1001, d_q25 = Num 1003.25, d_q50 = Num 1005.5, d_q75 = Num 1007.75,
         d_max = Num 1010\<rparr>),
      (''years_experience'', Numeric \<lparr>d_count = 10, d_mean = Num 7.1, d_std = Num (sqrt (1489 / 90)),
         d_min = Num 2, d_q25 = Num 4.25, d_q50 = Num 6.5, d_q75 = Num 8.75, d_max = Num 15\<rparr>),
      (''salary'', Numeric \<lparr>d_count = 10, d_mean = Num 79600.41,
         d_std = Num (sqrt (764198690547 / 4500)), d_min = Num 62000, d_q25 = Num 71500.75,
         d_q50 = Num 76500.4, d_q75 = Num 85750.8625, d_max = Num 105000\<rparr>)]"
  by (simp add: describe_def employee_data_def describe_numeric_1d_def nanmean_def nanstd_def
      nanmin_def nanmax_def quantile_def Let_def power2_eq_square)

lemma sqrt_within:
  fixes c e v :: real
  assumes "0 \<le> c + e" and "(c - e)\<^sup>2 < v" and "v < (c + e)\<^sup>2"
  shows "\<bar>sqrt v - c\<bar> < e"
proof -
  have l: "c - e < sqrt v" using assms(2) by (rule real_less_rsqrt)
  have u: "sqrt v < c + e" using assms(1,3) by (rule real_less_lsqrt)
  from l u show ?thesis by linarith
qed

lemma sqrt_below:
  fixes b v :: real
  assumes "0 \<le> b" and "v < b\<^sup>2"
  shows "sqrt v < b"
  using assms by (rule real_less_lsqrt)

text \<open>
  The standard deviation of \<^verbatim>\<open>describe\<close> is the sample one: with at least two cells, its
  square times the number of cells less one is the sum of the squared deviations.
\<close>

lemma nanstd_sample:
  assumes "2 \<le> length (dropna vs)"
  shows "\<exists>\<sigma>. nanstd vs = Num \<sigma> \<and> 0 \<le> \<sigma>
    \<and> \<sigma>\<^sup>2 * real (length (dropna vs) - 1)
      = (\<Sum>x\<leftarrow>dropna vs. (x - sum_list (dropna vs) / real (length (dropna vs)))\<^sup>2)"
proof -
  let ?xs = "dropna vs"
  let ?m = "sum_list ?xs / real (length ?xs)"
  let ?ss = "\<Sum>x\<leftarrow>?xs. (x - ?m)\<^sup>2"
  have nn: "0 \<le> ?ss" by (rule sum_list_nonneg) auto
  have n1: "0 < real (length ?xs - 1)" using assms by simp
  have eq: "nanstd vs = Num (sqrt (?ss / real (length ?xs - 1)))"
    using assms by (simp add: nanstd_def Let_def)
  have "(sqrt (?ss / real (length ?xs - 1)))\<^sup>2 = ?ss / real (length ?xs - 1)"
    using nn n1 by simp
  then have "(sqrt (?ss / real (length ?xs - 1)))\<^sup>2 * real (length ?xs - 1) = ?ss"
    using n1 by simp
  moreover have "0 \<le> sqrt (?ss / real (length ?xs - 1))"
    using nn n1 by simp
  ultimately show ?thesis using eq by blast
qed

text \<open>
  C9. In the description of the table of cell 1 the standard deviation is the sample one
  (divisor 9 for the 10 rows): that of \<^verbatim>\<open>years_experience\<close> is within half a unit of the
  sixth decimal of 4.067486 and that of \<^verbatim>\<open>salary\<close> within the same of 13031.574396, the
  values printed. Dividing by 10 gives neither.
\<close>

theorem describe_std_is_sample:
  "\<exists>e y s \<sigma>y \<sigma>s.
     describe argsort employee_data
       = Inr [(''employee_id'', Numeric e), (''years_experience'', Numeric y), (''salary'', Numeric s)]
     \<and> d_std y = Num \<sigma>y
     \<and> \<sigma>y = sqrt ((\<Sum>x\<leftarrow>[5, 8, 3, 12, 7, 2, 6, 15, 4, 9]. (x - 7.1)\<^sup>2) / (10 - 1))
     \<and> \<bar>\<sigma>y - 4.067486\<bar> < 0.0000005
     \<and> 0.0000005 < \<bar>sqrt ((\<Sum>x\<leftarrow>[5, 8, 3, 12, 7, 2, 6, 15, 4, 9]. (x - 7.1)\<^sup>2) / 10) - 4.067486\<bar>
     \<and> d_std s = Num \<sigma>s
     \<and> \<sigma>s = sqrt ((\<Sum>x\<leftarrow>[75000.50, 82000.75, 68000.00, 95000.25, 71000.80, 62000.00, 78000.30,
                         105000.00, 73000.60, 87000.90]. (x - 79600.41)\<^sup>2) / (10 - 1))
     \<and> \<bar>\<sigma>s - 13031.574396\<bar> < 0.0000005
     \<and> 0.0000005 < \<bar>sqrt ((\<Sum>x\<leftarrow>[75000.50, 82000.75, 68000.00, 95000.25, 71000.80, 62000.00,
                         78000.30, 105000.00, 73000.60, 87000.90]. (x - 79600.41)\<^sup>2) / 10)
                     - 13031.574396\<bar>"
proof -
  have sy: "(\<Sum>x\<leftarrow>[5, 8, 3, 12, 7, 2, 6, 15, 4, 9]. (x - 7.1)\<^sup>2) = (1489 / 10 :: real)"
    by (simp add: power2_eq_square)
  have ss: "(\<Sum>x\<leftarrow>[75000.50, 82000.75, 68000.00, 95000.25, 71000.80, 62000.00, 78000.30,
        105000.00, 73000.60, 87000.90]. (x - 79600.41)\<^sup>2) = (764198690547 / 500 :: real)"
    by (simp add: power2_eq_square)
  have y1: "\<bar>sqrt (1489 / 90) - 4.067486\<bar> < (0.0000005 :: real)"
    by (rule sqrt_within) (simp_all add: power2_eq_square)
  have s1: "\<bar>sqrt (764198690547 / 4500) - 13031.574396\<bar> < (0.0000005 :: real)"
    by (rule sqrt_within) (simp_all add: power2_eq_square)
  have "sqrt (1489 / 100) < (4 :: real)"
    by (rule sqrt_below) (simp_all add: power2_eq_square)
  then have y2: "0.0000005 < \<bar>sqrt (1489 / 100) - (4.067486 :: real)\<bar>"
    by (simp add: abs_if)
  have "sqrt (764198690547 / 5000) < (13000 :: real)"
    by (rule sqrt_below) (simp_all add: power2_eq_square)
  then have s2: "0.0000005 < \<bar>sqrt (764198690547 / 5000) - (13031.574396 :: real)\<bar>"
    by (simp add: abs_if)
  show ?thesis
    unfolding sy ss
    using y1 s1 y2 s2 by (simp add: describe_employee_data)
qed

section \<open>The cells and the state\<close>

text \<open>
  C7. What cell 2 (dtypes and describe) and cell 3 (the three lists) compute depends on the
  table only (and, for cell 2, on the function that numpy's \<^verbatim>\<open>argsort\<close> is): in two states of the notebook with the same table they give the same output,
  whatever the other variables hold, and run twice in a row they give the same output
  twice.
\<close>

theorem describeTable_deterministic:
  assumes "df s = df s'"
  shows "fst (cell_2 argsort s) = fst (cell_2 argsort s') \<and> fst (cell_3 s) = fst (cell_3 s')
    \<and> fst (cell_2 argsort (snd (cell_2 argsort s))) = fst (cell_2 argsort s)
    \<and> fst (cell_3 (snd (cell_3 s))) = fst (cell_3 s)
    \<and> describeTable argsort (df s) = fst (cell_2 argsort s)"
  using assms by (simp add: cell_2_def cell_3_def select_dtypes_def Let_def)

theorem describeTable_deterministic_witness:
  "df (snd (cell_3 cell_1)) = df cell_1 \<and> snd (cell_3 cell_1) \<noteq> cell_1
   \<and> fst (cell_2 stable_argsort (snd (cell_3 cell_1))) = fst (cell_2 stable_argsort cell_1)
   \<and> fst (cell_3 (snd (cell_3 cell_1))) = fst (cell_3 cell_1)"
proof -
  have h: "df (snd (cell_3 cell_1)) = df cell_1"
    by (simp add: cell_3_def select_dtypes_def Let_def)
  have "snd (cell_3 cell_1) \<noteq> cell_1"
    by (simp add: cell_3_def cell_1_def select_dtypes_def Let_def)
  with h describeTable_deterministic [OF h, of stable_argsort] show ?thesis by simp
qed

text \<open>
  C8. The table is the one cell 1 builds from the literal, and every later cell leaves it as
  it was, whether the cell ends normally or with an exception: cells 2 to 7 return a state
  with the same frame, that is the same columns with the same cells in the same order.
\<close>

theorem cells_leave_table_unchanged:
  "df cell_1 = employee_data
   \<and> df (snd (cell_2 argsort s)) = df s \<and> df (snd (cell_3 s)) = df s
   \<and> df (snd (cell_4 s)) = df s \<and> df (snd (cell_5 s)) = df s
   \<and> df (snd (cell_6 argsort s)) = df s \<and> df (snd (cell_7 argsort s)) = df s"
  by (simp add: cell_1_def cell_2_def cell_3_def cell_4_def cell_5_def cell_6_def cell_7_def
      select_dtypes_def Let_def split: sum.splits option.splits)

end
